theory Spec2Isabelle
  imports Main
begin

section \<open>Python values used by circuit.py\<close>

text \<open>
  Strings are byte lists; the shell only ever stores ASCII text (group names, exercise
  names and weekday tokens are validated against ASCII character classes before they
  reach the database). Integers are Python's unbounded integers, modelled as \<open>int\<close>.
\<close>

definition is_space :: "char \<Rightarrow> bool" where
  "is_space c = (c \<in> set [CHR 0x09, CHR 0x0A, CHR 0x0B, CHR 0x0C, CHR 0x0D,
                            CHR 0x1C, CHR 0x1D, CHR 0x1E, CHR 0x1F, CHR 0x20])"

text \<open>\<^verbatim>\<open>s.strip()\<close>: remove leading and trailing whitespace.\<close>

definition strip :: "string \<Rightarrow> string" where
  "strip s = rev (dropWhile is_space (rev (dropWhile is_space s)))"

text \<open>\<^verbatim>\<open>s.split(sep)\<close> for a one-character separator; the empty string splits into
  one empty piece.\<close>

fun split_on :: "char \<Rightarrow> string \<Rightarrow> string list" where
  "split_on sep [] = [[]]"
| "split_on sep (c # cs) =
     (if c = sep then [] # split_on sep cs
      else (case split_on sep cs of
              p # ps \<Rightarrow> (c # p) # ps
            | [] \<Rightarrow> [[c]]))"

text \<open>\<^verbatim>\<open>sep.join(xs)\<close>.\<close>

fun join :: "string \<Rightarrow> string list \<Rightarrow> string" where
  "join sep [] = []"
| "join sep [x] = x"
| "join sep (x # y # ys) = x @ sep @ join sep (y # ys)"

text \<open>\<^verbatim>\<open>s.split()\<close>: the maximal runs of non-whitespace characters.\<close>

fun split_ws_from :: "string \<Rightarrow> string \<Rightarrow> string list" where
  "split_ws_from w [] = (if w = [] then [] else [w])"
| "split_ws_from w (c # cs) =
     (if is_space c then (if w = [] then split_ws_from [] cs else w # split_ws_from [] cs)
      else split_ws_from (w @ [c]) cs)"

definition split_ws :: "string \<Rightarrow> string list" where
  "split_ws s = split_ws_from [] s"

text \<open>\<^verbatim>\<open>s.lower()\<close> on ASCII text.\<close>

definition lower_char :: "char \<Rightarrow> char" where
  "lower_char c =
     (case List.find (\<lambda>(u, l). u = c) (zip ''ABCDEFGHIJKLMNOPQRSTUVWXYZ'' ''abcdefghijklmnopqrstuvwxyz'') of
        Some (u, l) \<Rightarrow> l
      | None \<Rightarrow> c)"

definition lower :: "string \<Rightarrow> string" where
  "lower s = map lower_char s"

text \<open>\<^verbatim>\<open>int(s)\<close> on ASCII text: surrounding whitespace, an optional sign, then decimal
  digits, single underscores allowed between digits. \<open>None\<close> is \<^verbatim>\<open>ValueError\<close>.\<close>

definition digit_value :: "char \<Rightarrow> nat option" where
  "digit_value c = map_of (zip ''0123456789'' [0..<10]) c"

fun int_digits :: "nat \<Rightarrow> string \<Rightarrow> nat option" where
  "int_digits acc [] = Some acc"
| "int_digits acc (c # cs) =
     (case digit_value c of
        Some v \<Rightarrow> int_digits (10 * acc + v) cs
      | None \<Rightarrow>
          (if c = CHR ''_'' then
             (case cs of
                [] \<Rightarrow> None
              | d # ds \<Rightarrow> (if digit_value d = None then None else int_digits acc cs))
           else None))"

definition py_int :: "string \<Rightarrow> int option" where
  "py_int s =
     (let t = strip s;
          neg = (case t of c # r \<Rightarrow> c = CHR ''-'' | [] \<Rightarrow> False);
          body = (case t of c # r \<Rightarrow> (if c = CHR ''-'' \<or> c = CHR ''+'' then r else t) | [] \<Rightarrow> [])
      in case body of
           [] \<Rightarrow> None
         | c # r \<Rightarrow>
             (if digit_value c = None then None
              else map_option (\<lambda>n. if neg then - int n else int n) (int_digits 0 body)))"

text \<open>\<^verbatim>\<open>str(n)\<close> for an integer, as an f-string renders it.\<close>

definition digit_char :: "nat \<Rightarrow> char" where
  "digit_char n = ''0123456789'' ! (n mod 10)"

function str_nat :: "nat \<Rightarrow> string" where
  "str_nat n = (if n < 10 then [digit_char n] else str_nat (n div 10) @ [digit_char n])"
  by pat_completeness auto
termination
  by (relation "measure id") auto

declare str_nat.simps [simp del]

definition str_int :: "int \<Rightarrow> string" where
  "str_int i = (if i < 0 then CHR ''-'' # str_nat (nat (- i)) else str_nat (nat i))"

text \<open>Zero padding to two digits, as \<^verbatim>\<open>%m\<close>, \<^verbatim>\<open>%d\<close> and \<^verbatim>\<open>%y\<close> do.\<close>

definition pad2 :: "nat \<Rightarrow> string" where
  "pad2 n = (if n < 10 then CHR ''0'' # str_nat n else str_nat n)"

section \<open>Calendar dates\<close>

text \<open>
  A \<^verbatim>\<open>datetime.date\<close> is its proleptic Gregorian ordinal (\<^verbatim>\<open>toordinal()\<close>: day 1 is
  0001-01-01, a Monday). The conversion to year, month and day follows the standard
  library's \<^verbatim>\<open>_ord2ymd\<close>; weekday names are those of the C locale.
\<close>

type_synonym date = nat

definition MAXORDINAL :: nat where
  "MAXORDINAL = 3652059"

definition days_before_month :: "nat list" where
  "days_before_month = [0, 0, 31, 59, 90, 120, 151, 181, 212, 243, 273, 304, 334]"

definition days_in_month :: "nat list" where
  "days_in_month = [0, 31, 28, 31, 30, 31, 30, 31, 31, 30, 31, 30, 31]"

definition ord2ymd :: "date \<Rightarrow> nat \<times> nat \<times> nat" where
  "ord2ymd ordinal =
     (let n = ordinal - 1;
          n400 = n div 146097; n = n mod 146097;
          n100 = n div 36524; n = n mod 36524;
          n4 = n div 1461; n = n mod 1461;
          n1 = n div 365; n = n mod 365;
          year = n400 * 400 + 1 + n100 * 100 + n4 * 4 + n1
      in if n1 = 4 \<or> n100 = 4 then (year - 1, 12, 31)
         else
           (let leapyear = (n1 = 3 \<and> (n4 \<noteq> 24 \<or> n100 = 3));
                month = (n + 50) div 32;
                preceding = days_before_month ! month + (if month > 2 \<and> leapyear then 1 else 0)
            in if preceding > n
               then (let month' = month - 1;
                         preceding' = preceding -
                           (days_in_month ! month' + (if month' = 2 \<and> leapyear then 1 else 0))
                     in (year, month', n - preceding' + 1))
               else (year, month, n - preceding + 1)))"

definition date_year :: "date \<Rightarrow> nat" where
  "date_year d = fst (ord2ymd d)"

definition date_month :: "date \<Rightarrow> nat" where
  "date_month d = fst (snd (ord2ymd d))"

definition date_day :: "date \<Rightarrow> nat" where
  "date_day d = snd (snd (ord2ymd d))"

text \<open>\<^verbatim>\<open>weekday()\<close>: Monday is 0.\<close>

definition weekday :: "date \<Rightarrow> nat" where
  "weekday d = (d + 6) mod 7"

definition valid_days_order :: "string list" where
  "valid_days_order = [''Mon'', ''Tue'', ''Wed'', ''Thu'', ''Fri'', ''Sat'', ''Sun'']"

definition full_day_names :: "string list" where
  "full_day_names = [''Monday'', ''Tuesday'', ''Wednesday'', ''Thursday'', ''Friday'',
                     ''Saturday'', ''Sunday'']"

text \<open>\<^verbatim>\<open>strftime("%a")\<close> and \<^verbatim>\<open>strftime("%A")\<close>.\<close>

definition strftime_a :: "date \<Rightarrow> string" where
  "strftime_a d = valid_days_order ! weekday d"

definition strftime_A :: "date \<Rightarrow> string" where
  "strftime_A d = full_day_names ! weekday d"

text \<open>\<^verbatim>\<open>strftime("%-m/%-d/%y")\<close>, \<^verbatim>\<open>strftime("%m/%d/%y")\<close> and \<^verbatim>\<open>strftime("%Y-%m-%d")\<close>.\<close>

definition strftime_mdy_short :: "date \<Rightarrow> string" where
  "strftime_mdy_short d =
     str_nat (date_month d) @ ''/'' @ str_nat (date_day d) @ ''/'' @ pad2 (date_year d mod 100)"

definition strftime_mdy :: "date \<Rightarrow> string" where
  "strftime_mdy d = pad2 (date_month d) @ ''/'' @ pad2 (date_day d) @ ''/'' @ pad2 (date_year d mod 100)"

definition strftime_Ymd :: "date \<Rightarrow> string" where
  "strftime_Ymd d = str_nat (date_year d) @ ''-'' @ pad2 (date_month d) @ ''-'' @ pad2 (date_day d)"

section \<open>The database and the shell state\<close>

text \<open>
  A row of table \<^verbatim>\<open>groups\<close>. Column \<^verbatim>\<open>id\<close> is \<open>gid\<close> here; \<^verbatim>\<open>days\<close> is the text the
  shell stores, the weekday tokens joined by commas (empty for an unscheduled group).
\<close>

record group =
  gid :: int
  name :: string
  reps_per_cycle :: int
  cycles_per_circuit :: int
  days :: string
  add_reps :: int
  add_cycles :: int

text \<open>A row of table \<^verbatim>\<open>exercises\<close>.\<close>

record exercise =
  ex_id :: int
  group_id :: int
  ex_name :: string

text \<open>The attributes of \<^verbatim>\<open>CircuitShell\<close> together with the two tables behind its
  connection.\<close>

record shell =
  groups_tbl :: "group list"
  exercises_tbl :: "exercise list"
  current_group_id :: "int option"
  date_display_format :: int
  exercise_display_format :: int
  group_display_enabled :: bool

text \<open>\<^verbatim>\<open>SELECT * FROM groups ORDER BY id\<close>\<close>

definition select_groups :: "shell \<Rightarrow> group list" where
  "select_groups st = sort_key gid (groups_tbl st)"

text \<open>\<^verbatim>\<open>SELECT name FROM exercises WHERE group_id = ? ORDER BY id\<close>\<close>

definition select_exercises :: "shell \<Rightarrow> int \<Rightarrow> string list" where
  "select_exercises st g =
     map ex_name (sort_key ex_id (filter (\<lambda>e. group_id e = g) (exercises_tbl st)))"

text \<open>What a command prints, by the function that prints it.\<close>

datatype printed = Info string | Usage string | Error string | Print string

text \<open>The exceptions that can leave a command.\<close>

datatype exn = NameError | IndexError | OverflowError | KeyboardInterrupt

section \<open>The weekly layout\<close>

text \<open>The local function \<^verbatim>\<open>exercise_format\<close>, defined identically in \<^verbatim>\<open>do_index\<close>,
  \<^verbatim>\<open>do_layout\<close> and \<^verbatim>\<open>_layout_core\<close>.\<close>

definition exercise_format :: "int \<Rightarrow> int \<Rightarrow> int \<Rightarrow> string" where
  "exercise_format reps cycles fmt =
     (if fmt = 1 then
        str_int reps @ '' reps each per cycle\<newline>'' @ str_int cycles @ '' cycles in circuit''
      else if fmt = 2 then
        str_int reps @ '' reps\<newline>'' @ str_int cycles @ '' cycles''
      else if fmt = 3 then
        str_int reps @ '' reps | '' @ str_int cycles @ '' cycles''
      else if fmt = 4 then
        str_int reps @ ''r '' @ str_int cycles @ ''c''
      else
        str_int reps @ '' reps each per cycle\<newline>'' @ str_int cycles @ '' cycles in circuit'')"

text \<open>The \<^verbatim>\<open>days_list\<close> of \<^verbatim>\<open>_layout_core\<close>: the stripped pieces of \<^verbatim>\<open>days\<close> that are
  weekday tokens.\<close>

definition layout_days_list :: "group \<Rightarrow> string list" where
  "layout_days_list g =
     filter (\<lambda>d. d \<in> set valid_days_order) (map strip (split_on CHR '','' (days g)))"

text \<open>
  The dictionary \<^verbatim>\<open>day_workouts\<close>: one key per weekday, each holding the list of
  \<^verbatim>\<open>(group, occ_idx)\<close> pairs appended so far. Only tokens that passed the filter of
  \<^verbatim>\<open>days_list\<close> are looked up, so the key is always there (see
  \<open>collect_slots_lookup\<close>).
\<close>

type_synonym day_workouts = "string \<rightharpoonup> (group \<times> nat) list"

definition day_workouts_init :: day_workouts where
  "day_workouts_init = map_of (map (\<lambda>day. (day, [])) valid_days_order)"

fun append_slots :: "group \<Rightarrow> (nat \<times> string) list \<Rightarrow> day_workouts \<Rightarrow> day_workouts" where
  "append_slots g [] dw = dw"
| "append_slots g ((occ_idx, day) # rest) dw =
     append_slots g rest
       (case dw day of
          Some ws \<Rightarrow> dw(day \<mapsto> ws @ [(g, occ_idx)])
        | None \<Rightarrow> dw)"

fun collect_slots :: "group list \<Rightarrow> day_workouts \<Rightarrow> day_workouts" where
  "collect_slots [] dw = dw"
| "collect_slots (g # groups) dw =
     collect_slots groups (append_slots g (enumerate 1 (layout_days_list g)) dw)"

definition day_workouts :: "group list \<Rightarrow> day_workouts" where
  "day_workouts groups = collect_slots groups day_workouts_init"

text \<open>\<^verbatim>\<open>day_workouts.get(day_name, [])\<close>\<close>

definition workouts_on :: "day_workouts \<Rightarrow> string \<Rightarrow> (group \<times> nat) list" where
  "workouts_on dw day_name = (case dw day_name of Some ws \<Rightarrow> ws | None \<Rightarrow> [])"

text \<open>The header of a date's section, by \<^verbatim>\<open>self.date_display_format\<close>.\<close>

definition day_display :: "int \<Rightarrow> date \<Rightarrow> string \<Rightarrow> string" where
  "day_display fmt date_obj day_name =
     (if fmt = 1 then day_name
      else if fmt = 2 then strftime_A date_obj
      else if fmt = 3 then str_nat (date_month date_obj) @ ''/'' @ str_nat (date_day date_obj)
      else if fmt = 4 then strftime_mdy_short date_obj
      else day_name)"

text \<open>The lines \<^verbatim>\<open>f"{idx}. {ex}"\<close> for \<^verbatim>\<open>enumerate(exercises, 1)\<close>.\<close>

definition numbered :: "string list \<Rightarrow> string list" where
  "numbered exercises = map (\<lambda>(idx, ex). str_nat idx @ ''. '' @ ex) (enumerate 1 exercises)"

text \<open>The body of the loop over \<^verbatim>\<open>workouts\<close>: the texts handed to \<^verbatim>\<open>print_info\<close> for
  one \<^verbatim>\<open>(group, occ_idx)\<close> pair.\<close>

definition print_workout :: "shell \<Rightarrow> group \<times> nat \<Rightarrow> string list" where
  "print_workout st w =
     (case w of (g, occ_idx) \<Rightarrow>
        (let exercises = select_exercises st (gid g);
             reps = reps_per_cycle g + add_reps g * int occ_idx;
             cycles = cycles_per_circuit g + add_cycles g * int occ_idx
         in (if group_display_enabled st then [name g] else []) @
            numbered exercises @
            [exercise_format reps cycles (exercise_display_format st), '''']))"

fun print_workouts :: "shell \<Rightarrow> (group \<times> nat) list \<Rightarrow> string list" where
  "print_workouts st [] = []"
| "print_workouts st (w # workouts) = print_workout st w @ print_workouts st workouts"

text \<open>The body of the loop over \<^verbatim>\<open>dates_and_weekdays\<close>.\<close>

definition print_day :: "shell \<Rightarrow> day_workouts \<Rightarrow> date \<Rightarrow> string list" where
  "print_day st dw date_obj =
     (let day_name = strftime_a date_obj;
          workouts = workouts_on dw day_name
      in if workouts = [] then []
         else day_display (date_display_format st) date_obj day_name # print_workouts st workouts)"

fun print_days :: "shell \<Rightarrow> day_workouts \<Rightarrow> date list \<Rightarrow> string list" where
  "print_days st dw [] = []"
| "print_days st dw (d # ds) = print_day st dw d @ print_days st dw ds"

text \<open>\<^verbatim>\<open>[today + timedelta(days=i) for i in range(7)]\<close>; a date past 9999-12-31 is
  \<^verbatim>\<open>OverflowError\<close>.\<close>

definition next_7_days :: "date \<Rightarrow> exn + date list" where
  "next_7_days today =
     (if today + 6 > MAXORDINAL then Inl OverflowError
      else Inr (map (\<lambda>i. today + i) [0..<7]))"

text \<open>\<^verbatim>\<open>_layout_core\<close>: the texts handed to \<^verbatim>\<open>print_info\<close>, in order; \<open>today\<close> is what
  \<^verbatim>\<open>datetime.date.today()\<close> returns.\<close>

definition layout_core :: "shell \<Rightarrow> date \<Rightarrow> exn + string list" where
  "layout_core st today =
     (let groups = select_groups st
      in if groups = [] then Inr [''No workout groups available.'']
         else (let dw = day_workouts groups
               in case next_7_days today of
                    Inl e \<Rightarrow> Inl e
                  | Inr ds \<Rightarrow> Inr (print_days st dw ds)))"

section \<open>\<^verbatim>\<open>do_layout\<close>: the weekly layout, its export, and the single-group lookup\<close>

text \<open>\<^verbatim>\<open>layout\<close> with no argument: every text of \<^verbatim>\<open>_layout_core\<close> goes through
  \<^verbatim>\<open>print_info\<close>.\<close>

definition layout_show :: "shell \<Rightarrow> date \<Rightarrow> exn + printed list" where
  "layout_show st today =
     (case layout_core st today of
        Inl e \<Rightarrow> Inl e
      | Inr texts \<Rightarrow> Inr (map Info texts))"

text \<open>The banner written in front of an exported layout.\<close>

definition header :: string where
  "header =
     ''        \<newline>'' @
     ''  ___(_)_ __ ___ _   _(_) |_ \<newline>'' @
     '' / __| | '' @ [CHR 0x27] @ ''__/ __| | | | | __|\<newline>'' @
     ''| (__| | | | (__| |_| | | |_ \<newline>'' @
     '' '' @ [CHR 0x5C] @ ''___|_|_|  '' @ [CHR 0x5C] @ ''___|'' @ [CHR 0x5C] @ ''__,_|_|'' @ [CHR 0x5C] @ ''__|\<newline>'' @
     ''                             \<newline>''"

text \<open>\<^verbatim>\<open>buffer_print_info\<close>, which stands in for \<^verbatim>\<open>print_info\<close> during an export.\<close>

definition buffer_print_info :: "string \<Rightarrow> string \<Rightarrow> string" where
  "buffer_print_info output_buffer text = output_buffer @ text @ ''\<newline>''"

fun write_all :: "string \<Rightarrow> string list \<Rightarrow> string" where
  "write_all output_buffer [] = output_buffer"
| "write_all output_buffer (text # texts) = write_all (buffer_print_info output_buffer text) texts"

text \<open>
  \<^verbatim>\<open>layout export\<close>. The files of the working directory are a map from name to
  content; \<open>io_error\<close> is the message of the exception that opening or writing the file
  raises, if it does. An exception of the layout itself leaves through the
  \<^verbatim>\<open>finally\<close> clause before any file is opened.
\<close>

definition layout_export ::
  "shell \<Rightarrow> date \<Rightarrow> string option \<Rightarrow> (string \<rightharpoonup> string) \<Rightarrow>
     exn + (printed list \<times> (string \<rightharpoonup> string))" where
  "layout_export st today io_error files =
     (case layout_core st today of
        Inl e \<Rightarrow> Inl e
      | Inr texts \<Rightarrow>
          (let output_buffer = write_all header texts;
               file_date = strftime_Ymd today;
               filename = ''circuit_schedule['' @ file_date @ ''].txt''
           in case io_error of
                None \<Rightarrow>
                  Inr ([Info (''Exported workout schedule to '' @ filename)],
                       files(filename \<mapsto> output_buffer))
              | Some e \<Rightarrow> Inr ([Error (''Failed to export to file: '' @ e)], files)))"

text \<open>The \<^verbatim>\<open>scheduled_days\<close> of \<^verbatim>\<open>layout index\<close>: the non-empty stripped pieces.\<close>

definition scheduled_days :: "group \<Rightarrow> string list" where
  "scheduled_days g = filter (\<lambda>d. d \<noteq> []) (map strip (split_on CHR '','' (days g)))"

text \<open>\<^verbatim>\<open>layout index NUM\<close>, from the parsed \<^verbatim>\<open>idx\<close> on.\<close>

definition layout_index :: "shell \<Rightarrow> int \<Rightarrow> printed list" where
  "layout_index st idx =
     (let groups = select_groups st
      in if groups = [] then [Info ''No workout groups available.'']
         else if idx < 1 \<or> idx > int (length groups) then
           [Error (''Index '' @ str_int idx @ '' does not exist.'')]
         else
           (let g = groups ! nat (idx - 1);
                exercises = select_exercises st (gid g);
                reps = (if scheduled_days g \<noteq> [] then
                          (let occ_idx = 1 in reps_per_cycle g + add_reps g * occ_idx)
                        else reps_per_cycle g);
                cycles = (if scheduled_days g \<noteq> [] then
                            (let occ_idx = 1 in cycles_per_circuit g + add_cycles g * occ_idx)
                          else cycles_per_circuit g)
            in [Info (str_int idx @ ''. '' @ name g)] @
               map Info (numbered exercises) @
               [Info (exercise_format reps cycles (exercise_display_format st))]))"

section \<open>\<^verbatim>\<open>do_log\<close>\<close>

text \<open>The local function \<^verbatim>\<open>get_occurrence_index\<close>: the 1-based position of the first
  piece equal to \<open>day\<close>, and 1 when there is none.\<close>

fun first_match :: "(nat \<times> string) list \<Rightarrow> string \<Rightarrow> nat" where
  "first_match [] day = 0"
| "first_match ((idx, d) # rest) day = (if d = day then idx else first_match rest day)"

definition get_occurrence_index :: "string \<Rightarrow> string \<Rightarrow> nat" where
  "get_occurrence_index group_days day =
     (let days_list = filter (\<lambda>d. d \<noteq> []) (map strip (split_on CHR '','' group_days));
          occ_idx = first_match (enumerate 1 days_list) day
      in if occ_idx > 0 then occ_idx else 1)"

text \<open>The lines one group adds to \<^verbatim>\<open>log_lines\<close>.\<close>

definition log_section :: "group \<Rightarrow> string list \<Rightarrow> nat \<Rightarrow> string list" where
  "log_section g exercises occ_idx =
     (let reps = reps_per_cycle g + add_reps g * int occ_idx;
          cycles = cycles_per_circuit g + add_cycles g * int occ_idx
      in [''\<newline>'' @ name g @ '':''] @ numbered exercises @
         [str_int reps @ '' reps'', str_int cycles @ '' cycles''])"

text \<open>The loop over the groups, carrying \<^verbatim>\<open>log_lines\<close> and \<^verbatim>\<open>any_workouts\<close>.\<close>

fun log_groups ::
  "shell \<Rightarrow> string \<Rightarrow> group list \<Rightarrow> string list \<times> bool \<Rightarrow> string list \<times> bool" where
  "log_groups st log_day_name [] acc = acc"
| "log_groups st log_day_name (g # groups) (log_lines, any_workouts) =
     (let days_list = map strip (split_on CHR '','' (days g))
      in if log_day_name \<notin> set days_list then
           log_groups st log_day_name groups (log_lines, any_workouts)
         else
           (let occ_idx = get_occurrence_index (days g) log_day_name;
                exercises = select_exercises st (gid g)
            in if exercises = [] then
                 log_groups st log_day_name groups (log_lines, any_workouts)
               else
                 log_groups st log_day_name groups
                   (log_lines @ log_section g exercises occ_idx, True)))"

text \<open>What the user types at the date prompt, as \<^verbatim>\<open>strptime\<close> reads it.\<close>

datatype date_input = Blank | Parsed date | Malformed

definition LOG_FILENAME :: string where
  "LOG_FILENAME = ''circuit.log''"

text \<open>
  \<^verbatim>\<open>log add\<close>. The log file is \<open>None\<close> while it does not exist; \<open>io_error\<close> is the message
  of the exception that opening it for appending raises, if it does.
\<close>

definition log_add ::
  "shell \<Rightarrow> date \<Rightarrow> date_input \<Rightarrow> string option \<Rightarrow> string option \<Rightarrow>
     printed list \<times> string option" where
  "log_add st today input_date io_error log_file =
     (case (case input_date of
              Blank \<Rightarrow> Some today
            | Parsed d \<Rightarrow> Some d
            | Malformed \<Rightarrow> None) of
        None \<Rightarrow> ([Error ''Invalid date format. Please enter YYYY-MM-DD.''], log_file)
      | Some log_date \<Rightarrow>
          (let log_day_name = strftime_a log_date
           in if log_day_name \<notin> set valid_days_order then
                ([Error (''Invalid day name derived from date: '' @ log_day_name)], log_file)
              else
                (let groups = select_groups st
                 in if groups = [] then ([Info ''No workout groups available.''], log_file)
                    else
                      (case log_groups st log_day_name groups
                              ([''Workout Log for '' @ strftime_mdy log_date @
                                '' ('' @ log_day_name @ ''):''], False) of
                         (log_lines, any_workouts) \<Rightarrow>
                           if \<not> any_workouts then
                             ([Info (''No workouts scheduled for '' @ strftime_A log_date @
                                     '' ('' @ log_day_name @ ''), nothing added.'')], log_file)
                           else
                             (case io_error of
                                None \<Rightarrow>
                                  ([Info (''Workout layout for '' @ strftime_mdy log_date @
                                          '' added to log.'')],
                                   Some ((case log_file of None \<Rightarrow> [] | Some content \<Rightarrow> content) @
                                         join ''\<newline>'' (log_lines @ [replicate 40 CHR ''-'']) @
                                         ''\<newline>''))
                              | Some e \<Rightarrow>
                                  ([Error (''Failed to write to log: '' @ e)], log_file))))))"

text \<open>\<^verbatim>\<open>log display\<close>.\<close>

definition log_display :: "string option \<Rightarrow> string option \<Rightarrow> printed list" where
  "log_display io_error log_file =
     (case log_file of
        None \<Rightarrow> [Info ''No workout log found yet.'']
      | Some content \<Rightarrow>
          (case io_error of
             Some e \<Rightarrow> [Error (''Failed to read log: '' @ e)]
           | None \<Rightarrow>
               if strip content = [] then [Info ''Workout log is empty.'']
               else [Info (''--- Workout Log ('' @ LOG_FILENAME @ '') ---''), Print content]))"

definition do_log ::
  "shell \<Rightarrow> date \<Rightarrow> date_input \<Rightarrow> string option \<Rightarrow> string option \<Rightarrow> string \<Rightarrow>
     printed list \<times> string option" where
  "do_log st today input_date io_error log_file arg0 =
     (let arg = lower (strip arg0)
      in if arg = ''add'' then log_add st today input_date io_error log_file
         else if arg = ''display'' then (log_display io_error log_file, log_file)
         else ([Error ''Use `log add` or `log display`.''], log_file))"

section \<open>\<^verbatim>\<open>do_index\<close> and the command loop\<close>

text \<open>\<^verbatim>\<open>print_groups\<close>: the list of groups, the selected one starred.\<close>

definition print_groups :: "shell \<Rightarrow> group list \<Rightarrow> printed list" where
  "print_groups st groups =
     map (\<lambda>(idx, g).
            Info ((if current_group_id st = Some (gid g) then ''*'' else '' '') @
                  '' '' @ str_nat idx @ ''. '' @ name g))
         (enumerate 1 groups)"

text \<open>\<^verbatim>\<open>[int(i) for i in index_parts]\<close>; \<open>None\<close> when one of them is \<^verbatim>\<open>ValueError\<close>.\<close>

fun int_all :: "string list \<Rightarrow> int list option" where
  "int_all [] = Some []"
| "int_all (p # ps) =
     (case py_int p of
        None \<Rightarrow> None
      | Some i \<Rightarrow> (case int_all ps of None \<Rightarrow> None | Some is \<Rightarrow> Some (i # is)))"

text \<open>
  The branch \<^verbatim>\<open>cmd == "remove"\<close>. Once the indexes are valid the function reads
  \<^verbatim>\<open>skip_confirm\<close>, a name that is bound nowhere in the module: the read raises
  \<^verbatim>\<open>NameError\<close>, and nothing after it runs.
\<close>

definition index_remove :: "shell \<Rightarrow> group list \<Rightarrow> string list \<Rightarrow> exn + (printed list \<times> shell)" where
  "index_remove st groups parts =
     (if length parts < 2 then
        Inr ([Error (''Specify index(es) to remove, e.g. '' @ [CHR 0x27] @ ''index remove 2 3'' @
                     [CHR 0x27] @ ''.'')], st)
      else
        (case int_all (tl parts) of
           None \<Rightarrow> Inr ([Error ''All indexes must be valid integers.''], st)
         | Some indexes \<Rightarrow>
             (let invalid_indexes = filter (\<lambda>i. i < 1 \<or> i > int (length groups)) indexes
              in if invalid_indexes \<noteq> [] then
                   Inr ([Error (''Index(es) do not exist: '' @
                                join '', '' (map str_int invalid_indexes))], st)
                 else Inl NameError)))"

text \<open>The branch \<^verbatim>\<open>cmd == "layout"\<close>: both arms of the test on \<^verbatim>\<open>days\<close> take the base
  values.\<close>

definition index_layout :: "shell \<Rightarrow> group list \<Rightarrow> string list \<Rightarrow> printed list" where
  "index_layout st groups parts =
     (if length parts \<noteq> 2 then [Error ''Usage: index layout <NUM>'']
      else
        (case py_int (parts ! 1) of
           None \<Rightarrow> [Error ''Invalid index number for layout.'']
         | Some idx \<Rightarrow>
             if idx < 1 \<or> idx > int (length groups) then
               [Error (''Index '' @ str_int idx @ '' does not exist.'')]
             else
               (let group_brief = groups ! nat (idx - 1);
                    group_id = gid group_brief
                in case List.find (\<lambda>g. gid g = group_id) (groups_tbl st) of
                     None \<Rightarrow> [Error ''Group data not found.'']
                   | Some g \<Rightarrow>
                       (let exercises = select_exercises st group_id;
                            reps = (if strip (days g) \<noteq> [] then reps_per_cycle g
                                    else reps_per_cycle g);
                            cycles = (if strip (days g) \<noteq> [] then cycles_per_circuit g
                                      else cycles_per_circuit g);
                            fmt = exercise_display_format st
                        in [Info (''Group '' @ str_int idx @ '': '' @ name g)] @
                           map Info (numbered exercises) @
                           [Info (exercise_format reps cycles fmt)]))))"

text \<open>The last branch: select a group by its index.\<close>

definition index_select :: "shell \<Rightarrow> group list \<Rightarrow> string list \<Rightarrow> printed list \<times> shell" where
  "index_select st groups parts =
     (if length parts \<noteq> 1 then
        ([Error ''Only one index number can be specified for selection.''], st)
      else
        (case py_int (parts ! 0) of
           None \<Rightarrow> ([Error ''Not an index number.''], st)
         | Some idx \<Rightarrow>
             if idx < 1 \<or> idx > int (length groups) then
               ([Error (''Index '' @ str_int idx @ '' does not exist.'')], st)
             else
               (let g = groups ! nat (idx - 1)
                in ([Info (''Selected workout group '' @ str_int idx @ ''. '' @ name g)],
                    st\<lparr>current_group_id := Some (gid g)\<rparr>))))"

definition do_index :: "shell \<Rightarrow> string \<Rightarrow> exn + (printed list \<times> shell)" where
  "do_index st arg0 =
     (let arg = strip arg0;
          groups = select_groups st
      in if groups = [] then Inr ([Info ''No workout groups available.''], st)
         else if arg = [] then Inr (print_groups st groups, st)
         else
           (let parts = split_ws arg
            in case parts of
                 [] \<Rightarrow> Inl IndexError
               | p # ps \<Rightarrow>
                   (let cmd = lower p
                    in if cmd = ''remove'' then index_remove st groups parts
                       else if cmd = ''layout'' then Inr (index_layout st groups parts, st)
                       else Inr (index_select st groups parts))))"

text \<open>
  The loop of \<^verbatim>\<open>__main__\<close>: \<^verbatim>\<open>cmdloop\<close> runs inside a \<^verbatim>\<open>try\<close> whose only handler is for
  \<^verbatim>\<open>KeyboardInterrupt\<close>, after which the loop starts over. Any other exception that
  leaves a command leaves \<^verbatim>\<open>cmdloop\<close> and the \<^verbatim>\<open>while\<close> loop with it, and the process
  ends.
\<close>

datatype process = Accepting shell | Crashed exn

definition after_command :: "shell \<Rightarrow> exn + (printed list \<times> shell) \<Rightarrow> process" where
  "after_command st r =
     (case r of
        Inr (out, st') \<Rightarrow> Accepting st'
      | Inl e \<Rightarrow> (if e = KeyboardInterrupt then Accepting st else Crashed e))"

section \<open>Notions used in the statements\<close>

text \<open>The slots one group contributes to a weekday: the positions of its \<^verbatim>\<open>days_list\<close>
  that hold the weekday, each paired with the group.\<close>

definition slots_of :: "group \<Rightarrow> string \<Rightarrow> (group \<times> nat) list" where
  "slots_of g day =
     map (\<lambda>(occ_idx, d). (g, occ_idx))
         (filter (\<lambda>(occ_idx, d). d = day) (enumerate 1 (layout_days_list g)))"

text \<open>
  The occurrence index as the specification words it in its data model and testable
  properties: the number of slots holding the same weekday as slot \<open>i\<close> (0-based), from the
  start of the list up to and including that slot.
\<close>

definition spec_occurrence_rank :: "string list \<Rightarrow> nat \<Rightarrow> nat" where
  "spec_occurrence_rank ds i = length (filter (\<lambda>d. d = ds ! i) (take (Suc i) ds))"

text \<open>The overload projection as the specification words it (section 4.2).\<close>

definition spec_project :: "int \<Rightarrow> int \<Rightarrow> int \<Rightarrow> int \<Rightarrow> int \<Rightarrow> int \<times> int" where
  "spec_project base_reps base_cycles add_r add_c occurrence_index =
     (base_reps + add_r * occurrence_index, base_cycles + add_c * occurrence_index)"

text \<open>The order of the slots of one weekday: by group id, then by position in the group's
  list.\<close>

definition slot_before :: "group \<times> nat \<Rightarrow> group \<times> nat \<Rightarrow> bool" where
  "slot_before a b =
     (gid (fst a) < gid (fst b) \<or> (gid (fst a) = gid (fst b) \<and> snd a < snd b))"

text \<open>A small store for the examples: the specification's Leg Day, a group that lists
  Monday twice, a group with no schedule, and their exercises.\<close>

definition leg_day :: group where
  "leg_day = \<lparr>gid = 1, name = ''Leg Day'', reps_per_cycle = 10, cycles_per_circuit = 3,
               days = ''Mon,Thu'', add_reps = 2, add_cycles = 0\<rparr>"

definition arms :: group where
  "arms = \<lparr>gid = 2, name = ''Arms'', reps_per_cycle = 8, cycles_per_circuit = 2,
            days = ''Mon,Wed,Mon'', add_reps = 1, add_cycles = 1\<rparr>"

definition stretching :: group where
  "stretching = \<lparr>gid = 3, name = ''Stretching'', reps_per_cycle = 5, cycles_per_circuit = 1,
                  days = '''', add_reps = 1, add_cycles = 1\<rparr>"

definition example_shell :: shell where
  "example_shell =
     \<lparr>groups_tbl = [leg_day, arms, stretching],
      exercises_tbl =
        [\<lparr>ex_id = 1, group_id = 1, ex_name = ''Squats''\<rparr>,
         \<lparr>ex_id = 2, group_id = 1, ex_name = ''Lunges''\<rparr>,
         \<lparr>ex_id = 3, group_id = 2, ex_name = ''Curls''\<rparr>,
         \<lparr>ex_id = 4, group_id = 3, ex_name = ''Toe touch''\<rparr>],
      current_group_id = None,
      date_display_format = 1,
      exercise_display_format = 3,
      group_display_enabled = True\<rparr>"

text \<open>Monday, 6 January 2025, as an ordinal.\<close>

definition monday_2025_01_06 :: date where
  "monday_2025_01_06 = 739257"

section \<open>The contents of \<^verbatim>\<open>day_workouts\<close>\<close>

lemma append_slots_lookup:
  "append_slots g es dw day =
     (case dw day of
        None \<Rightarrow> None
      | Some ws \<Rightarrow>
          Some (ws @ map (\<lambda>(occ_idx, d). (g, occ_idx)) (filter (\<lambda>(occ_idx, d). d = day) es)))"
proof (induction es arbitrary: dw)
  case Nil
  then show ?case by (simp split: option.split)
next
  case (Cons e es)
  obtain k d where e: "e = (k, d)" by (cases e)
  show ?case
    by (cases "dw d"; cases "dw day") (auto simp: e Cons.IH split: option.split)
qed

lemma collect_slots_lookup:
  "collect_slots groups dw day =
     (case dw day of
        None \<Rightarrow> None
      | Some ws \<Rightarrow> Some (ws @ concat (map (\<lambda>g. slots_of g day) groups)))"
proof (induction groups arbitrary: dw)
  case Nil
  then show ?case by (simp split: option.split)
next
  case (Cons g groups)
  show ?case
    by (cases "dw day") (simp_all add: Cons.IH append_slots_lookup slots_of_def)
qed

lemma day_workouts_init_lookup:
  "day_workouts_init day = (if day \<in> set valid_days_order then Some [] else None)"
  by (simp add: day_workouts_init_def valid_days_order_def)

lemma slots_of_invalid: "day \<notin> set valid_days_order \<Longrightarrow> slots_of g day = []"
  by (auto simp: slots_of_def layout_days_list_def filter_empty_conv enumerate_eq_zip
           dest!: set_zip_rightD)

lemma workouts_on_day_workouts:
  "workouts_on (day_workouts groups) day = concat (map (\<lambda>g. slots_of g day) groups)"
  by (cases "day \<in> set valid_days_order")
     (simp_all add: workouts_on_def day_workouts_def collect_slots_lookup
        day_workouts_init_lookup slots_of_invalid)

lemma enumerate_filter_positions:
  "map fst (filter (\<lambda>(k, d). d = day) (enumerate n ds)) =
     filter (\<lambda>k. ds ! (k - n) = day) [n..<n + length ds]"
proof (induction ds arbitrary: n)
  case Nil
  then show ?case by simp
next
  case (Cons d ds)
  have tail: "filter (\<lambda>k. (d # ds) ! (k - n) = day) [Suc n..<Suc n + length ds] =
              filter (\<lambda>k. ds ! (k - Suc n) = day) [Suc n..<Suc n + length ds]"
  proof (rule filter_cong[OF refl])
    fix k assume "k \<in> set [Suc n..<Suc n + length ds]"
    then have "k - n = Suc (k - Suc n)" by auto
    then show "((d # ds) ! (k - n) = day) = (ds ! (k - Suc n) = day)" by simp
  qed
  have upt: "[n..<n + length (d # ds)] = n # [Suc n..<Suc n + length ds]"
    by (subst upt_rec) simp
  have "map fst (filter (\<lambda>(k, d). d = day) (enumerate n (d # ds))) =
          (if d = day then [n] else []) @
          map fst (filter (\<lambda>(k, d). d = day) (enumerate (Suc n) ds))"
    by simp
  also have "\<dots> = (if d = day then [n] else []) @
                   filter (\<lambda>k. (d # ds) ! (k - n) = day) [Suc n..<Suc n + length ds]"
    by (simp only: Cons.IH tail)
  also have "\<dots> = filter (\<lambda>k. (d # ds) ! (k - n) = day) (n # [Suc n..<Suc n + length ds])"
    by simp
  finally show ?case
    by (simp only: upt)
qed

lemma slots_of_positions:
  "slots_of g day =
     map (\<lambda>k. (g, k))
         (filter (\<lambda>k. layout_days_list g ! (k - 1) = day) [1..<Suc (length (layout_days_list g))])"
proof -
  have "slots_of g day =
          map (\<lambda>k. (g, k))
              (map fst (filter (\<lambda>(k, d). d = day) (enumerate 1 (layout_days_list g))))"
    by (simp add: slots_of_def case_prod_unfold)
  then show ?thesis by (simp add: enumerate_filter_positions)
qed

lemma first_match_enumerate:
  "first_match (enumerate n ds) day =
     (if day \<in> set ds then n + length (takeWhile (\<lambda>d. d \<noteq> day) ds) else 0)"
  by (induction ds arbitrary: n) auto

section \<open>Occurrence indexing\<close>

text \<open>
  Claim C1, as the code has it. The occurrence index of a slot is its 1-based position
  in the group's list of weekday tokens, counting every slot whatever weekday it holds;
  it is not the number of slots holding the same weekday. The slots recorded for a
  weekday are, group by group, the positions \<open>k\<close> whose token is that weekday, each with
  occurrence index \<open>k\<close>; no date enters the computation. The log's
  \<^verbatim>\<open>get_occurrence_index\<close> returns the position of the first token equal to the weekday
  among the non-empty tokens, and 1 when there is none.
\<close>

theorem occurrence_index_is_list_position:
  "workouts_on (day_workouts groups) day =
     concat (map (\<lambda>g. map (\<lambda>k. (g, k))
                        (filter (\<lambda>k. layout_days_list g ! (k - 1) = day)
                                [1..<Suc (length (layout_days_list g))]))
                 groups) \<and>
   get_occurrence_index group_days day =
     (if day \<in> set (filter (\<lambda>d. d \<noteq> []) (map strip (split_on CHR '','' group_days)))
      then Suc (length (takeWhile (\<lambda>d. d \<noteq> day)
                          (filter (\<lambda>d. d \<noteq> []) (map strip (split_on CHR '','' group_days)))))
      else 1)"
  by (simp only: workouts_on_day_workouts slots_of_positions)
     (simp add: get_occurrence_index_def first_match_enumerate Let_def)

text \<open>For \<^verbatim>\<open>days = "Mon,Wed,Mon"\<close> the first Monday slot has occurrence 1, the Wednesday slot
  2 and the second Monday slot 3.\<close>

theorem occurrence_index_is_list_position_witness:
  "workouts_on (day_workouts [arms]) ''Mon'' = [(arms, 1), (arms, 3)] \<and>
   workouts_on (day_workouts [arms]) ''Wed'' = [(arms, 2)] \<and>
   get_occurrence_index (days arms) ''Wed'' = 2"
proof -
  have ds: "layout_days_list arms = [''Mon'', ''Wed'', ''Mon'']" by code_simp
  have upt: "[1..<Suc 3] = [1, 2, 3]" by code_simp
  have pieces: "filter (\<lambda>d. d \<noteq> []) (map strip (split_on CHR '','' (days arms))) =
                  [''Mon'', ''Wed'', ''Mon'']"
    by code_simp
  have mon: "workouts_on (day_workouts [arms]) ''Mon'' = [(arms, 1), (arms, 3)]"
    using occurrence_index_is_list_position [of "[arms]" "''Mon''"] by (simp add: ds upt)
  have wed: "workouts_on (day_workouts [arms]) ''Wed'' = [(arms, 2)]"
    using occurrence_index_is_list_position [of "[arms]" "''Wed''"] by (simp add: ds upt)
  have occ: "get_occurrence_index (days arms) ''Wed'' = 2"
    using occurrence_index_is_list_position [of "[]" "''Wed''" "days arms"] by (simp add: pieces)
  from mon wed occ show ?thesis by simp
qed

text \<open>
  Claim C1, as the specification states it, fails on \<^verbatim>\<open>days = "Mon,Wed,Mon"\<close>: counting
  the slots that hold the same weekday gives 1 for the Wednesday slot and 2 for the
  second Monday slot, while the layout records 2 and 3, and the log computes 2 for
  Wednesday.
\<close>

theorem occurrence_per_weekday_count_counterexample:
  "spec_occurrence_rank (layout_days_list arms) 1 = 1 \<and>
   spec_occurrence_rank (layout_days_list arms) 2 = 2 \<and>
   map snd (workouts_on (day_workouts [arms]) ''Wed'') = [2] \<and>
   map snd (workouts_on (day_workouts [arms]) ''Mon'') = [1, 3] \<and>
   get_occurrence_index (days arms) ''Wed'' = 2 \<and>
   snd (workouts_on (day_workouts [arms]) ''Wed'' ! 0) \<noteq> spec_occurrence_rank (layout_days_list arms) 1 \<and>
   snd (workouts_on (day_workouts [arms]) ''Mon'' ! 1) \<noteq> spec_occurrence_rank (layout_days_list arms) 2"
  by code_simp

section \<open>The overload projection\<close>

text \<open>
  Claim C2. The reps and cycles the weekly layout renders for a slot with occurrence
  index \<open>k\<close>, and those the log writes, are exactly
  \<open>(base_reps + add_reps * k, base_cycles + add_cycles * k)\<close>: unbounded integers, never
  clamped. For non-negative increments the projection is monotonically non-decreasing
  in \<open>k\<close>.
\<close>

theorem overload_projection:
  "print_workout st (g, k) =
     (if group_display_enabled st then [name g] else []) @
     numbered (select_exercises st (gid g)) @
     [exercise_format
        (fst (spec_project (reps_per_cycle g) (cycles_per_circuit g) (add_reps g) (add_cycles g) (int k)))
        (snd (spec_project (reps_per_cycle g) (cycles_per_circuit g) (add_reps g) (add_cycles g) (int k)))
        (exercise_display_format st), ''''] \<and>
   log_section g exercises k =
     [''\<newline>'' @ name g @ '':''] @ numbered exercises @
     [str_int (fst (spec_project (reps_per_cycle g) (cycles_per_circuit g) (add_reps g) (add_cycles g) (int k))) @ '' reps'',
      str_int (snd (spec_project (reps_per_cycle g) (cycles_per_circuit g) (add_reps g) (add_cycles g) (int k))) @ '' cycles''] \<and>
   spec_project (reps_per_cycle g) (cycles_per_circuit g) (add_reps g) (add_cycles g) (int k) =
     (reps_per_cycle g + add_reps g * int k, cycles_per_circuit g + add_cycles g * int k) \<and>
   (0 \<le> reps_per_cycle g \<and> 0 \<le> cycles_per_circuit g \<and> 0 \<le> add_reps g \<and> 0 \<le> add_cycles g \<and>
    1 \<le> k \<and> k \<le> k' \<longrightarrow>
      fst (spec_project (reps_per_cycle g) (cycles_per_circuit g) (add_reps g) (add_cycles g) (int k))
        \<le> fst (spec_project (reps_per_cycle g) (cycles_per_circuit g) (add_reps g) (add_cycles g) (int k')) \<and>
      snd (spec_project (reps_per_cycle g) (cycles_per_circuit g) (add_reps g) (add_cycles g) (int k))
        \<le> snd (spec_project (reps_per_cycle g) (cycles_per_circuit g) (add_reps g) (add_cycles g) (int k')))"
proof -
  have mono: "\<And>a::int. 0 \<le> a \<Longrightarrow> k \<le> k' \<Longrightarrow> a * int k \<le> a * int k'"
    by (simp add: mult_left_mono)
  show ?thesis
    by (simp add: print_workout_def log_section_def spec_project_def mono)
qed

text \<open>The specification's Leg Day on its second slot: 10 + 2 * 2 = 14 reps, 3 cycles, up
  from 12 reps on the first slot.\<close>

theorem overload_projection_witness:
  "print_workout example_shell (leg_day, 2) =
     [''Leg Day'', ''1. Squats'', ''2. Lunges'', ''14 reps | 3 cycles'', ''''] \<and>
   spec_project 10 3 2 0 1 = (12, 3) \<and> spec_project 10 3 2 0 2 = (14, 3) \<and>
   fst (spec_project 10 3 2 0 1) \<le> fst (spec_project 10 3 2 0 2) \<and>
   snd (spec_project 10 3 2 0 1) \<le> snd (spec_project 10 3 2 0 2)"
proof -
  have g: "reps_per_cycle leg_day = 10" "cycles_per_circuit leg_day = 3" "add_reps leg_day = 2"
    "add_cycles leg_day = 0" "name leg_day = ''Leg Day''"
    by (simp_all add: leg_day_def)
  have e: "group_display_enabled example_shell" "exercise_display_format example_shell = 3"
    by (simp_all add: example_shell_def)
  have n: "numbered (select_exercises example_shell (gid leg_day)) = [''1. Squats'', ''2. Lunges'']"
    by code_simp
  have f: "exercise_format 14 3 3 = ''14 reps | 3 cycles''" by code_simp
  from overload_projection [of example_shell leg_day 2 "[]" 2]
  have "print_workout example_shell (leg_day, 2) =
          [''Leg Day'', ''1. Squats'', ''2. Lunges'', ''14 reps | 3 cycles'', ''''] \<and>
        spec_project 10 3 2 0 2 = (14, 3)"
    by (simp add: g e n f)
  moreover from overload_projection [of example_shell leg_day 1 "[]" 2]
  have "spec_project 10 3 2 0 1 = (12, 3) \<and>
        fst (spec_project 10 3 2 0 1) \<le> fst (spec_project 10 3 2 0 2) \<and>
        snd (spec_project 10 3 2 0 1) \<le> snd (spec_project 10 3 2 0 2)"
    by (auto simp: g)
  ultimately show ?thesis by simp
qed

section \<open>The example week\<close>

lemma next_7_days_list:
  "today + 6 \<le> MAXORDINAL \<Longrightarrow>
   next_7_days today = Inr [today, today + 1, today + 2, today + 3, today + 4, today + 5, today + 6]"
proof -
  have "[0..<7] = [0, 1, 2, 3, 4, 5, 6::nat]"
    by (simp add: upt_rec)
  then show "today + 6 \<le> MAXORDINAL \<Longrightarrow> ?thesis"
    by (simp add: next_7_days_def)
qed

lemma example_week_names:
  "strftime_a 739257 = ''Mon''"
  "strftime_a 739258 = ''Tue''"
  "strftime_a 739259 = ''Wed''"
  "strftime_a 739260 = ''Thu''"
  "strftime_a 739261 = ''Fri''"
  "strftime_a 739262 = ''Sat''"
  "strftime_a 739263 = ''Sun''"
  by (simp_all add: strftime_a_def weekday_def valid_days_order_def)

lemma example_select_groups: "select_groups example_shell = [leg_day, arms, stretching]"
  by code_simp

lemma example_workouts:
  "workouts_on (day_workouts [leg_day, arms, stretching]) ''Mon'' = [(leg_day, 1), (arms, 1), (arms, 3)]"
  "workouts_on (day_workouts [leg_day, arms, stretching]) ''Tue'' = []"
  "workouts_on (day_workouts [leg_day, arms, stretching]) ''Wed'' = [(arms, 2)]"
  "workouts_on (day_workouts [leg_day, arms, stretching]) ''Thu'' = [(leg_day, 2)]"
  "workouts_on (day_workouts [leg_day, arms, stretching]) ''Fri'' = []"
  "workouts_on (day_workouts [leg_day, arms, stretching]) ''Sat'' = []"
  "workouts_on (day_workouts [leg_day, arms, stretching]) ''Sun'' = []"
  by code_simp+

lemma example_print_workouts:
  "print_workouts example_shell [(leg_day, Suc 0), (arms, Suc 0), (arms, 3)] =
     [''Leg Day'', ''1. Squats'', ''2. Lunges'', ''12 reps | 3 cycles'', '''',
      ''Arms'', ''1. Curls'', ''9 reps | 3 cycles'', '''',
      ''Arms'', ''1. Curls'', ''11 reps | 5 cycles'', '''']"
  "print_workouts example_shell [(arms, 2)] = [''Arms'', ''1. Curls'', ''10 reps | 4 cycles'', '''']"
  "print_workouts example_shell [(leg_day, 2)] =
     [''Leg Day'', ''1. Squats'', ''2. Lunges'', ''14 reps | 3 cycles'', '''']"
  by code_simp+

lemma example_layout:
  "layout_core example_shell monday_2025_01_06 = Inr
     [''Mon'', ''Leg Day'', ''1. Squats'', ''2. Lunges'', ''12 reps | 3 cycles'', '''',
      ''Arms'', ''1. Curls'', ''9 reps | 3 cycles'', '''',
      ''Arms'', ''1. Curls'', ''11 reps | 5 cycles'', '''',
      ''Wed'', ''Arms'', ''1. Curls'', ''10 reps | 4 cycles'', '''',
      ''Thu'', ''Leg Day'', ''1. Squats'', ''2. Lunges'', ''14 reps | 3 cycles'', '''']"
proof -
  have ok: "monday_2025_01_06 + 6 \<le> MAXORDINAL"
    by (simp add: monday_2025_01_06_def MAXORDINAL_def)
  have fmt: "date_display_format example_shell = 1"
    by (simp add: example_shell_def)
  have ne: "leg_day \<noteq> arms" by (simp add: leg_day_def arms_def)
  show ?thesis
    using next_7_days_list [OF ok]
    by (simp add: layout_core_def example_select_groups print_day_def
          example_week_names example_workouts example_print_workouts day_display_def fmt Let_def
          monday_2025_01_06_def
        del: print_workouts.simps)
qed

lemma example_Ymd: "strftime_Ymd monday_2025_01_06 = ''2025-01-06''"
  by (simp add: monday_2025_01_06_def strftime_Ymd_def date_year_def date_month_def date_day_def
        ord2ymd_def Let_def days_before_month_def days_in_month_def pad2_def str_nat.simps
        digit_char_def)

section \<open>Display formats\<close>

text \<open>
  Claim C6. A format code outside 1 to 4 renders as code 1 does, in the exercise/cycle
  renderer and in the date renderer alike; codes 1 to 4 of the exercise/cycle renderer
  give \<^verbatim>\<open>"{r} reps each per cycle\n{c} cycles in circuit"\<close>, \<^verbatim>\<open>"{r} reps\n{c} cycles"\<close>,
  \<^verbatim>\<open>"{r} reps | {c} cycles"\<close> and \<^verbatim>\<open>"{r}r {c}c"\<close>.
\<close>

theorem format_fallback:
  "(fmt \<notin> {1, 2, 3, 4} \<longrightarrow>
      exercise_format r c fmt = exercise_format r c 1 \<and>
      day_display fmt date_obj day_name = day_display 1 date_obj day_name) \<and>
   exercise_format r c 1 =
     str_int r @ '' reps each per cycle\<newline>'' @ str_int c @ '' cycles in circuit'' \<and>
   exercise_format r c 2 = str_int r @ '' reps\<newline>'' @ str_int c @ '' cycles'' \<and>
   exercise_format r c 3 = str_int r @ '' reps | '' @ str_int c @ '' cycles'' \<and>
   exercise_format r c 4 = str_int r @ ''r '' @ str_int c @ ''c''"
  by (simp add: exercise_format_def day_display_def)

text \<open>Codes 7 and 0 fall back to code 1; 16 reps and 6 cycles under each code.\<close>

theorem format_fallback_witness:
  "exercise_format 16 6 7 = ''16 reps each per cycle\<newline>6 cycles in circuit'' \<and>
   exercise_format 16 6 0 = exercise_format 16 6 1 \<and>
   day_display 7 monday_2025_01_06 ''Mon'' = ''Mon'' \<and>
   exercise_format 16 6 2 = ''16 reps\<newline>6 cycles'' \<and>
   exercise_format 16 6 3 = ''16 reps | 6 cycles'' \<and>
   exercise_format 16 6 4 = ''16r 6c''"
proof -
  have s: "str_int 16 = ''16''" "str_int 6 = ''6''" by code_simp+
  have d: "day_display 1 monday_2025_01_06 ''Mon'' = ''Mon''" by (simp add: day_display_def)
  from format_fallback [of 7 16 6 monday_2025_01_06 "''Mon''"]
  have a: "exercise_format 16 6 7 = ''16 reps each per cycle\<newline>6 cycles in circuit'' \<and>
           day_display 7 monday_2025_01_06 ''Mon'' = ''Mon'' \<and>
           exercise_format 16 6 2 = ''16 reps\<newline>6 cycles'' \<and>
           exercise_format 16 6 3 = ''16 reps | 6 cycles'' \<and>
           exercise_format 16 6 4 = ''16r 6c''"
    by (auto simp: s d)
  from format_fallback [of 0 16 6 monday_2025_01_06 "''Mon''"]
  have b: "exercise_format 16 6 0 = exercise_format 16 6 1" by simp
  from a b show ?thesis by simp
qed

section \<open>The single-group lookup\<close>

lemma days_empty_unscheduled: "days g = [] \<Longrightarrow> scheduled_days g = [] \<and> layout_days_list g = []"
  by (simp add: scheduled_days_def layout_days_list_def strip_def valid_days_order_def)

lemma valid_day_nonempty: "d \<in> set valid_days_order \<Longrightarrow> d \<noteq> []"
  by (auto simp: valid_days_order_def)

lemma layout_days_subset: "set (layout_days_list g) \<subseteq> set (scheduled_days g)"
  by (auto simp: layout_days_list_def scheduled_days_def dest: valid_day_nonempty)

lemma layout_days_scheduled: "layout_days_list g \<noteq> [] \<Longrightarrow> scheduled_days g \<noteq> []"
  using layout_days_subset [of g] by (cases "layout_days_list g") auto

text \<open>
  Claim C10. \<^verbatim>\<open>layout index NUM\<close> never uses a slot's own occurrence index: for a group
  whose \<^verbatim>\<open>days\<close> text has a non-empty token it renders
  \<open>reps_per_cycle + add_reps * 1\<close> and \<open>cycles_per_circuit + add_cycles * 1\<close>, whichever
  weekdays are listed and however many slots there are (no date is read); for a group
  with no schedule it renders the base values.
\<close>

theorem layout_index_occurrence_one:
  assumes "1 \<le> idx" and "idx \<le> int (length (select_groups st))"
    and "g = select_groups st ! nat (idx - 1)"
  shows "layout_index st idx =
           [Info (str_int idx @ ''. '' @ name g)] @
           map Info (numbered (select_exercises st (gid g))) @
           [Info (exercise_format
                    (if scheduled_days g \<noteq> [] then reps_per_cycle g + add_reps g * 1
                     else reps_per_cycle g)
                    (if scheduled_days g \<noteq> [] then cycles_per_circuit g + add_cycles g * 1
                     else cycles_per_circuit g)
                    (exercise_display_format st))] \<and>
         (layout_days_list g \<noteq> [] \<longrightarrow> scheduled_days g \<noteq> []) \<and>
         (days g = [] \<longrightarrow> scheduled_days g = [])"
proof -
  from assms(1,2) have "select_groups st \<noteq> []" by auto
  with assms show ?thesis
    by (simp add: layout_index_def Let_def days_empty_unscheduled layout_days_scheduled)
qed

text \<open>Arms lists three slots and still shows 8 + 1 reps and 2 + 1 cycles; Stretching has
  no schedule and shows its base values.\<close>

theorem layout_index_occurrence_one_witness:
  "layout_index example_shell 2 = [Info ''2. Arms'', Info ''1. Curls'', Info ''9 reps | 3 cycles''] \<and>
   layout_index example_shell 1 =
     [Info ''1. Leg Day'', Info ''1. Squats'', Info ''2. Lunges'', Info ''12 reps | 3 cycles''] \<and>
   layout_index example_shell 3 = [Info ''3. Stretching'', Info ''1. Toe touch'', Info ''5 reps | 1 cycles'']"
proof -
  have sel: "select_groups example_shell = [leg_day, arms, stretching]" by code_simp
  have sch: "scheduled_days arms = [''Mon'', ''Wed'', ''Mon'']" "scheduled_days leg_day = [''Mon'', ''Thu'']"
    "scheduled_days stretching = []"
    by code_simp+
  have ex: "map Info (numbered (select_exercises example_shell (gid arms))) = [Info ''1. Curls'']"
    "map Info (numbered (select_exercises example_shell (gid leg_day))) = [Info ''1. Squats'', Info ''2. Lunges'']"
    "map Info (numbered (select_exercises example_shell (gid stretching))) = [Info ''1. Toe touch'']"
    by code_simp+
  have f: "exercise_format (reps_per_cycle arms + add_reps arms * 1) (cycles_per_circuit arms + add_cycles arms * 1)
             (exercise_display_format example_shell) = ''9 reps | 3 cycles''"
    "exercise_format (reps_per_cycle leg_day + add_reps leg_day * 1) (cycles_per_circuit leg_day + add_cycles leg_day * 1)
             (exercise_display_format example_shell) = ''12 reps | 3 cycles''"
    "exercise_format (reps_per_cycle stretching) (cycles_per_circuit stretching)
             (exercise_display_format example_shell) = ''5 reps | 1 cycles''"
    by code_simp+
  have h: "str_int 1 = ''1''" "str_int 2 = ''2''" "str_int 3 = ''3''"
    "name leg_day = ''Leg Day''" "name arms = ''Arms''" "name stretching = ''Stretching''"
    by code_simp+
  have a: "layout_index example_shell 2 = [Info ''2. Arms'', Info ''1. Curls'', Info ''9 reps | 3 cycles'']"
    using layout_index_occurrence_one [of 2 example_shell arms] f(1) by (simp add: sel sch ex h)
  have b: "layout_index example_shell 1 =
     [Info ''1. Leg Day'', Info ''1. Squats'', Info ''2. Lunges'', Info ''12 reps | 3 cycles'']"
    using layout_index_occurrence_one [of 1 example_shell leg_day] f(2) by (simp add: sel sch ex h)
  have c: "layout_index example_shell 3 = [Info ''3. Stretching'', Info ''1. Toe touch'', Info ''5 reps | 1 cycles'']"
    using layout_index_occurrence_one [of 3 example_shell stretching] f(3) by (simp add: sel sch ex h)
  from a b c show ?thesis by simp
qed

section \<open>The export\<close>

lemma write_all_concat:
  "write_all output_buffer texts = output_buffer @ concat (map (\<lambda>text. text @ ''\<newline>'') texts)"
  by (induction texts arbitrary: output_buffer) (simp_all add: buffer_print_info_def)

text \<open>
  Claim C9. When the file can be written, \<^verbatim>\<open>layout export\<close> stores under the name
  \<^verbatim>\<open>circuit_schedule[YYYY-MM-DD].txt\<close> of the current date exactly the banner followed
  by the texts the weekly layout prints under the current settings, one per line and in
  the same order. (The year is printed without padding, so it has four digits from the
  year 1000 on.)
\<close>

theorem export_is_banner_then_layout:
  assumes "layout_core st today = Inr texts"
  shows "layout_show st today = Inr (map Info texts) \<and>
         layout_export st today None files =
           Inr ([Info (''Exported workout schedule to '' @
                       ''circuit_schedule['' @ strftime_Ymd today @ ''].txt'')],
                files(''circuit_schedule['' @ strftime_Ymd today @ ''].txt'' \<mapsto>
                        header @ concat (map (\<lambda>text. text @ ''\<newline>'') texts))) \<and>
         strftime_Ymd today =
           str_nat (date_year today) @ ''-'' @ pad2 (date_month today) @ ''-'' @ pad2 (date_day today)"
  using assms
  by (simp add: layout_show_def layout_export_def write_all_concat strftime_Ymd_def Let_def)

text \<open>The example store exported on 6 January 2025.\<close>

theorem export_is_banner_then_layout_witness:
  "layout_export example_shell monday_2025_01_06 None Map.empty =
     Inr ([Info ''Exported workout schedule to circuit_schedule[2025-01-06].txt''],
          [''circuit_schedule[2025-01-06].txt'' \<mapsto>
             header @
             ''Mon\<newline>Leg Day\<newline>1. Squats\<newline>2. Lunges\<newline>12 reps | 3 cycles\<newline>\<newline>'' @
             ''Arms\<newline>1. Curls\<newline>9 reps | 3 cycles\<newline>\<newline>'' @
             ''Arms\<newline>1. Curls\<newline>11 reps | 5 cycles\<newline>\<newline>'' @
             ''Wed\<newline>Arms\<newline>1. Curls\<newline>10 reps | 4 cycles\<newline>\<newline>'' @
             ''Thu\<newline>Leg Day\<newline>1. Squats\<newline>2. Lunges\<newline>14 reps | 3 cycles\<newline>\<newline>''])"
  using export_is_banner_then_layout [OF example_layout, of Map.empty]
  by (simp add: example_Ymd)

section \<open>The log\<close>

lemma strftime_a_valid: "strftime_a d \<in> set valid_days_order"
proof -
  have "weekday d < length valid_days_order"
    by (simp add: weekday_def valid_days_order_def)
  then show ?thesis
    unfolding strftime_a_def by (rule nth_mem)
qed

lemma log_groups_skip:
  "\<forall>g\<in>set groups. log_day_name \<notin> set (map strip (split_on CHR '','' (days g))) \<or>
                     select_exercises st (gid g) = [] \<Longrightarrow>
   log_groups st log_day_name groups (log_lines, any_workouts) = (log_lines, any_workouts)"
  by (induction groups) (auto simp: Let_def)

text \<open>
  Claim C4. When no group matches the target date (no group's \<^verbatim>\<open>days\<close> holds the date's
  weekday, or every group that does has no exercise), \<^verbatim>\<open>log add\<close> leaves the log file as
  it was, absent or byte for byte, and prints one informational message through
  \<^verbatim>\<open>print_info\<close>, never an error: \<^verbatim>\<open>No workouts scheduled for ..., nothing added.\<close>, or
  \<^verbatim>\<open>No workout groups available.\<close> when the store holds no group at all.
\<close>

theorem log_add_nothing_scheduled:
  assumes input: "input_date = Blank \<and> log_date = today \<or> input_date = Parsed log_date"
    and none: "\<forall>g\<in>set (select_groups st).
                 strftime_a log_date \<notin> set (map strip (split_on CHR '','' (days g))) \<or>
                 select_exercises st (gid g) = []"
  shows "log_add st today input_date io_error log_file =
           ([Info (if select_groups st = [] then ''No workout groups available.''
                   else ''No workouts scheduled for '' @ strftime_A log_date @
                        '' ('' @ strftime_a log_date @ ''), nothing added.'')],
            log_file) \<and>
         do_log st today input_date io_error log_file ''add'' =
           log_add st today input_date io_error log_file"
proof -
  have arg: "lower (strip ''add'') = ''add''" by code_simp
  have sel: "(case input_date of Blank \<Rightarrow> Some today | Parsed d \<Rightarrow> Some d | Malformed \<Rightarrow> None) =
               Some log_date"
    using input by auto
  have "log_add st today input_date io_error log_file =
           ([Info (if select_groups st = [] then ''No workout groups available.''
                   else ''No workouts scheduled for '' @ strftime_A log_date @
                        '' ('' @ strftime_a log_date @ ''), nothing added.'')],
            log_file)"
    by (simp add: log_add_def sel Let_def strftime_a_valid log_groups_skip [OF none])
  then show ?thesis
    by (simp add: do_log_def arg)
qed

lemma example_full_names:
  "strftime_A 739257 = ''Monday''" "strftime_A 739258 = ''Tuesday''"
  by (simp_all add: strftime_A_def weekday_def full_day_names_def)

lemma example_pieces:
  "map strip (split_on CHR '','' (days leg_day)) = [''Mon'', ''Thu'']"
  "map strip (split_on CHR '','' (days arms)) = [''Mon'', ''Wed'', ''Mon'']"
  "map strip (split_on CHR '','' (days stretching)) = [[]]"
  by code_simp+

text \<open>A Tuesday, on which the example store schedules nothing; and a Monday on a store
  whose groups have no exercises.\<close>

theorem log_add_nothing_scheduled_witness:
  "do_log example_shell monday_2025_01_06 (Parsed 739258) None (Some ''earlier entries'') ''add'' =
     ([Info ''No workouts scheduled for Tuesday (Tue), nothing added.''], Some ''earlier entries'') \<and>
   do_log (example_shell\<lparr>exercises_tbl := []\<rparr>) 739257 Blank None None ''add'' =
     ([Info ''No workouts scheduled for Monday (Mon), nothing added.''], None)"
proof -
  have sel: "select_groups (example_shell\<lparr>exercises_tbl := []\<rparr>) = [leg_day, arms, stretching]"
    by code_simp
  have none: "select_exercises (example_shell\<lparr>exercises_tbl := []\<rparr>) i = []" for i
    by (simp add: select_exercises_def)
  have a: "do_log example_shell monday_2025_01_06 (Parsed 739258) None (Some ''earlier entries'') ''add'' =
     ([Info ''No workouts scheduled for Tuesday (Tue), nothing added.''], Some ''earlier entries'')"
    using log_add_nothing_scheduled [of "Parsed 739258" 739258 monday_2025_01_06 example_shell None
        "Some ''earlier entries''"]
    by (simp add: example_select_groups example_pieces example_week_names example_full_names
          del: set_map)
  have b: "do_log (example_shell\<lparr>exercises_tbl := []\<rparr>) 739257 Blank None None ''add'' =
     ([Info ''No workouts scheduled for Monday (Mon), nothing added.''], None)"
    using log_add_nothing_scheduled [of Blank 739257 739257 "example_shell\<lparr>exercises_tbl := []\<rparr>" None None]
    by (simp add: sel none example_week_names example_full_names)
  from a b show ?thesis by simp
qed










section \<open>Unscheduled groups and empty dates\<close>

lemma unscheduled_no_slots: "layout_days_list g = [] \<Longrightarrow> slots_of g day = []"
  by (simp add: slots_of_def)

lemma slots_of_fst: "w \<in> set (slots_of g day) \<Longrightarrow> fst w = g"
  by (auto simp: slots_of_def)

lemma print_workouts_concat: "print_workouts st workouts = concat (map (print_workout st) workouts)"
  by (induction workouts) simp_all

lemma print_days_concat: "print_days st dw ds = concat (map (print_day st dw) ds)"
  by (induction ds) simp_all

lemma print_day_cong:
  "workouts_on dw (strftime_a d) = workouts_on dw' (strftime_a d) \<Longrightarrow>
   print_day st dw d = print_day st dw' d"
  by (simp add: print_day_def)

lemma workouts_on_scheduled_only:
  "workouts_on (day_workouts (filter (\<lambda>g. days g \<noteq> []) groups)) day =
   workouts_on (day_workouts groups) day"
proof -
  have "concat (map (\<lambda>g. slots_of g day) (filter (\<lambda>g. days g \<noteq> []) groups)) =
        concat (map (\<lambda>g. slots_of g day) groups)"
    by (induction groups) (simp_all add: unscheduled_no_slots days_empty_unscheduled)
  then show ?thesis by (simp add: workouts_on_day_workouts)
qed

text \<open>
  Claim C7. A group whose \<^verbatim>\<open>days\<close> is empty has no slot under any weekday, and the slots
  of every weekday are the same with and without it; the weekly layout is computed from
  the scheduled groups alone. A date whose weekday has no slot prints nothing: no header
  and no blank line.
\<close>

theorem unscheduled_group_never_laid_out:
  assumes "days g = []"
  shows "(g, k) \<notin> set (workouts_on (day_workouts groups) day) \<and>
         workouts_on (day_workouts (gs1 @ g # gs2)) day = workouts_on (day_workouts (gs1 @ gs2)) day \<and>
         (select_groups st \<noteq> [] \<longrightarrow>
            layout_core st today =
              (case next_7_days today of
                 Inl e \<Rightarrow> Inl e
               | Inr ds \<Rightarrow>
                   Inr (concat (map (print_day st
                                       (day_workouts (filter (\<lambda>g. days g \<noteq> []) (select_groups st))))
                                    ds)))) \<and>
         (workouts_on dw (strftime_a d) = [] \<longrightarrow> print_day st dw d = [])"
proof -
  have empty: "slots_of g day = []"
    using assms by (simp add: unscheduled_no_slots days_empty_unscheduled)
  have a: "(g, k) \<notin> set (workouts_on (day_workouts groups) day)"
  proof
    assume "(g, k) \<in> set (workouts_on (day_workouts groups) day)"
    then obtain g' where "(g, k) \<in> set (slots_of g' day)"
      by (auto simp: workouts_on_day_workouts)
    then show False
      using slots_of_fst [of "(g, k)" g' day] empty by auto
  qed
  have b: "workouts_on (day_workouts (gs1 @ g # gs2)) day = workouts_on (day_workouts (gs1 @ gs2)) day"
    by (simp add: workouts_on_day_workouts empty)
  have c: "select_groups st \<noteq> [] \<longrightarrow>
            layout_core st today =
              (case next_7_days today of
                 Inl e \<Rightarrow> Inl e
               | Inr ds \<Rightarrow>
                   Inr (concat (map (print_day st
                                       (day_workouts (filter (\<lambda>g. days g \<noteq> []) (select_groups st))))
                                    ds)))"
  proof -
    have "print_day st (day_workouts (filter (\<lambda>g. days g \<noteq> []) (select_groups st))) =
          print_day st (day_workouts (select_groups st))"
      by (rule ext) (rule print_day_cong, rule workouts_on_scheduled_only)
    then show ?thesis
      by (simp add: layout_core_def Let_def print_days_concat split: sum.split)
  qed
  have d: "workouts_on dw (strftime_a d) = [] \<longrightarrow> print_day st dw d = []"
    by (simp add: print_day_def)
  from a b c d show ?thesis by blast
qed

text \<open>Stretching, the unscheduled group of the example store; Tuesday 7 January 2025 has
  no slot and prints nothing.\<close>

theorem unscheduled_group_never_laid_out_witness:
  "(stretching, 1) \<notin> set (workouts_on (day_workouts [leg_day, arms, stretching]) ''Mon'') \<and>
   workouts_on (day_workouts [leg_day, arms, stretching]) ''Mon'' =
     workouts_on (day_workouts [leg_day, arms]) ''Mon'' \<and>
   print_day example_shell (day_workouts [leg_day, arms, stretching]) 739258 = [] \<and>
   layout_core example_shell monday_2025_01_06 =
     Inr (concat (map (print_day example_shell (day_workouts [leg_day, arms]))
                      [739257, 739258, 739259, 739260, 739261, 739262, 739263]))"
proof -
  have u: "days stretching = []" by (simp add: stretching_def)
  have ok: "monday_2025_01_06 + 6 \<le> MAXORDINAL"
    by (simp add: monday_2025_01_06_def MAXORDINAL_def)
  have sched: "days leg_day \<noteq> []" "days arms \<noteq> []"
    by (simp_all add: leg_day_def arms_def)
  note w = unscheduled_group_never_laid_out [OF u, of 1 "[leg_day, arms, stretching]" "''Mon''"
      "[leg_day, arms]" "[]" example_shell monday_2025_01_06
      "day_workouts [leg_day, arms, stretching]" 739258]
  from w have a: "(stretching, 1) \<notin> set (workouts_on (day_workouts [leg_day, arms, stretching]) ''Mon'')"
    by blast
  from w have b: "workouts_on (day_workouts [leg_day, arms, stretching]) ''Mon'' =
     workouts_on (day_workouts [leg_day, arms]) ''Mon''"
    by simp
  from w have c: "print_day example_shell (day_workouts [leg_day, arms, stretching]) 739258 = []"
    by (simp add: example_week_names example_workouts)
  from w have d: "layout_core example_shell monday_2025_01_06 =
     Inr (concat (map (print_day example_shell (day_workouts [leg_day, arms]))
                      [739257, 739258, 739259, 739260, 739261, 739262, 739263]))"
    using next_7_days_list [OF ok]
    by (simp add: example_select_groups sched u monday_2025_01_06_def)
  from a b c d show ?thesis by blast
qed

section \<open>Determinism and order of the weekly layout\<close>

lemma select_groups_strictly_sorted:
  assumes "distinct (map gid (groups_tbl st))"
  shows "sorted_wrt (<) (map gid (select_groups st))"
proof -
  have "distinct (map gid (select_groups st))"
    using assms by (simp add: select_groups_def distinct_map)
  moreover have "sorted (map gid (select_groups st))"
    by (simp add: select_groups_def)
  ultimately show ?thesis
    by (simp add: strict_sorted_iff)
qed

lemma slots_of_sorted: "sorted_wrt slot_before (slots_of g day)"
proof -
  have "sorted_wrt (<) (filter (\<lambda>k. layout_days_list g ! (k - 1) = day)
                          [1..<Suc (length (layout_days_list g))])"
    by (rule sorted_wrt_filter) (rule sorted_wrt_upt)
  then show ?thesis
    by (simp add: slots_of_positions sorted_wrt_map slot_before_def)
qed

lemma slots_concat_sorted:
  "sorted_wrt (<) (map gid groups) \<Longrightarrow>
   sorted_wrt slot_before (concat (map (\<lambda>g. slots_of g day) groups))"
proof (induction groups)
  case Nil
  then show ?case by simp
next
  case (Cons g groups)
  have cross: "slot_before a b"
    if "a \<in> set (slots_of g day)" and "b \<in> set (slots_of g' day)" and "g' \<in> set groups" for a b g'
  proof -
    have "fst a = g" "fst b = g'"
      using that slots_of_fst by auto
    moreover have "gid g < gid g'"
      using Cons.prems that(3) by auto
    ultimately show ?thesis by (simp add: slot_before_def)
  qed
  show ?case
    using Cons cross by (auto simp: sorted_wrt_append slots_of_sorted)
qed

lemma print_workout_frame:
  assumes "exercises_tbl st' = exercises_tbl st"
    and "exercise_display_format st' = exercise_display_format st"
    and "group_display_enabled st' = group_display_enabled st"
  shows "print_workout st' w = print_workout st w"
  using assms by (simp add: print_workout_def select_exercises_def)

lemma print_workouts_frame:
  assumes "exercises_tbl st' = exercises_tbl st"
    and "exercise_display_format st' = exercise_display_format st"
    and "group_display_enabled st' = group_display_enabled st"
  shows "print_workouts st' workouts = print_workouts st workouts"
  by (induction workouts) (simp_all add: print_workout_frame [OF assms])

lemma print_day_frame:
  assumes "exercises_tbl st' = exercises_tbl st"
    and "date_display_format st' = date_display_format st"
    and "exercise_display_format st' = exercise_display_format st"
    and "group_display_enabled st' = group_display_enabled st"
  shows "print_day st' dw d = print_day st dw d"
  by (simp add: print_day_def Let_def print_workouts_frame [OF assms(1,3,4)] assms(2))

lemma print_days_frame:
  assumes "exercises_tbl st' = exercises_tbl st"
    and "date_display_format st' = date_display_format st"
    and "exercise_display_format st' = exercise_display_format st"
    and "group_display_enabled st' = group_display_enabled st"
  shows "print_days st' dw ds = print_days st dw ds"
  by (induction ds) (simp_all add: print_day_frame [OF assms])

text \<open>
  Claim C8. The weekly layout is a function of the two tables, of today's date and of
  the three display settings: two shells that agree on them print the same texts,
  whatever else differs. The texts come by ascending date (today and the six days after
  it); within a date, after its header, by ascending group id and then by the position
  of the slot in the group's \<^verbatim>\<open>days\<close>; within a slot the exercises are numbered in
  ascending exercise id, the order of insertion.
\<close>

theorem layout_deterministic_and_ordered:
  "(groups_tbl st' = groups_tbl st \<and> exercises_tbl st' = exercises_tbl st \<and>
    date_display_format st' = date_display_format st \<and>
    exercise_display_format st' = exercise_display_format st \<and>
    group_display_enabled st' = group_display_enabled st \<longrightarrow>
      layout_core st' today = layout_core st today) \<and>
   (select_groups st \<noteq> [] \<and> today + 6 \<le> MAXORDINAL \<longrightarrow>
      layout_core st today =
        Inr (concat (map (print_day st (day_workouts (select_groups st)))
                         [today, today + 1, today + 2, today + 3, today + 4, today + 5, today + 6]))) \<and>
   print_day st dw d =
     (if workouts_on dw (strftime_a d) = [] then []
      else day_display (date_display_format st) d (strftime_a d) #
           concat (map (print_workout st) (workouts_on dw (strftime_a d)))) \<and>
   (distinct (map gid (groups_tbl st)) \<longrightarrow>
      sorted_wrt slot_before (workouts_on (day_workouts (select_groups st)) day)) \<and>
   sorted (map ex_id (sort_key ex_id (filter (\<lambda>e. group_id e = gid g) (exercises_tbl st)))) \<and>
   print_workout st (g, k) =
     (if group_display_enabled st then [name g] else []) @
     numbered (map ex_name (sort_key ex_id (filter (\<lambda>e. group_id e = gid g) (exercises_tbl st)))) @
     [exercise_format (reps_per_cycle g + add_reps g * int k)
        (cycles_per_circuit g + add_cycles g * int k) (exercise_display_format st), '''']"
proof -
  have frame: "layout_core st' today = layout_core st today"
    if "groups_tbl st' = groups_tbl st" "exercises_tbl st' = exercises_tbl st"
      "date_display_format st' = date_display_format st"
      "exercise_display_format st' = exercise_display_format st"
      "group_display_enabled st' = group_display_enabled st"
  proof -
    have g: "select_groups st' = select_groups st"
      using that(1) by (simp add: select_groups_def)
    show ?thesis
      by (simp add: layout_core_def Let_def g print_days_frame [OF that(2-5)] split: sum.split)
  qed
  have week: "layout_core st today =
        Inr (concat (map (print_day st (day_workouts (select_groups st)))
                         [today, today + 1, today + 2, today + 3, today + 4, today + 5, today + 6]))"
    if "select_groups st \<noteq> []" "today + 6 \<le> MAXORDINAL"
    using that by (simp add: layout_core_def Let_def next_7_days_list print_days_concat)
  have day: "print_day st dw d =
     (if workouts_on dw (strftime_a d) = [] then []
      else day_display (date_display_format st) d (strftime_a d) #
           concat (map (print_workout st) (workouts_on dw (strftime_a d))))"
    by (simp add: print_day_def Let_def print_workouts_concat)
  have slots: "sorted_wrt slot_before (workouts_on (day_workouts (select_groups st)) day)"
    if "distinct (map gid (groups_tbl st))"
    using select_groups_strictly_sorted [OF that]
    by (simp add: workouts_on_day_workouts slots_concat_sorted)
  have ids: "sorted (map ex_id (sort_key ex_id (filter (\<lambda>e. group_id e = gid g) (exercises_tbl st))))"
    by simp
  have block: "print_workout st (g, k) =
     (if group_display_enabled st then [name g] else []) @
     numbered (map ex_name (sort_key ex_id (filter (\<lambda>e. group_id e = gid g) (exercises_tbl st)))) @
     [exercise_format (reps_per_cycle g + add_reps g * int k)
        (cycles_per_circuit g + add_cycles g * int k) (exercise_display_format st), '''']"
    by (simp add: print_workout_def Let_def select_exercises_def)
  from frame week day slots ids block show ?thesis by blast
qed

text \<open>The example store: selecting another group changes nothing, the week runs from
  6 to 12 January 2025, and Monday's slots are Leg Day 1, Arms 1, Arms 3.\<close>

theorem layout_deterministic_and_ordered_witness:
  "layout_core (example_shell\<lparr>current_group_id := Some 2\<rparr>) monday_2025_01_06 =
     layout_core example_shell monday_2025_01_06 \<and>
   layout_core example_shell monday_2025_01_06 =
     Inr (concat (map (print_day example_shell (day_workouts (select_groups example_shell)))
                      [739257, 739258, 739259, 739260, 739261, 739262, 739263])) \<and>
   sorted_wrt slot_before [(leg_day, 1), (arms, 1), (arms, 3)]"
proof -
  have ok: "select_groups example_shell \<noteq> [] \<and> monday_2025_01_06 + 6 \<le> MAXORDINAL"
    by (simp add: example_select_groups monday_2025_01_06_def MAXORDINAL_def)
  have ids: "distinct (map gid (groups_tbl example_shell))"
    by (simp add: example_shell_def leg_day_def arms_def stretching_def)
  note w = layout_deterministic_and_ordered [of "example_shell\<lparr>current_group_id := Some 2\<rparr>"
      example_shell monday_2025_01_06 "day_workouts (select_groups example_shell)" 739257
      "''Mon''" leg_day 1]
  from w have a: "layout_core (example_shell\<lparr>current_group_id := Some 2\<rparr>) monday_2025_01_06 =
     layout_core example_shell monday_2025_01_06"
    by simp
  from w ok have b: "layout_core example_shell monday_2025_01_06 =
     Inr (concat (map (print_day example_shell (day_workouts (select_groups example_shell)))
                      [739257, 739258, 739259, 739260, 739261, 739262, 739263]))"
    by (simp add: monday_2025_01_06_def)
  from w ids have c: "sorted_wrt slot_before [(leg_day, 1), (arms, 1), (arms, 3)]"
    by (simp add: example_select_groups example_workouts)
  from a b c show ?thesis by blast
qed

section \<open>A command that ends the process\<close>

text \<open>
  Claim C3 fails on \<^verbatim>\<open>index remove\<close>. With at least one index given and every index
  valid, the command reads the unbound name \<^verbatim>\<open>skip_confirm\<close> and raises \<^verbatim>\<open>NameError\<close>, in
  exactly these cases; the loop of \<^verbatim>\<open>__main__\<close> handles \<^verbatim>\<open>KeyboardInterrupt\<close> only, so the
  process ends instead of accepting the next command.
\<close>

theorem index_remove_raises_NameError:
  "(index_remove st groups (p # ps) = Inl NameError \<longleftrightarrow>
      ps \<noteq> [] \<and>
      (\<exists>indexes. int_all ps = Some indexes \<and>
                 (\<forall>i\<in>set indexes. 1 \<le> i \<and> i \<le> int (length groups)))) \<and>
   after_command st (Inl NameError) = Crashed NameError"
proof -
  have "index_remove st groups (p # ps) = Inl NameError \<longleftrightarrow>
      ps \<noteq> [] \<and>
      (\<exists>indexes. int_all ps = Some indexes \<and>
                 (\<forall>i\<in>set indexes. 1 \<le> i \<and> i \<le> int (length groups)))"
  proof (cases "ps = []")
    case True
    then show ?thesis by (simp add: index_remove_def)
  next
    case False
    then have len: "\<not> length (p # ps) < 2" by (cases ps) auto
    show ?thesis
    proof (cases "int_all ps")
      case None
      then show ?thesis using False len by (simp add: index_remove_def)
    next
      case (Some indexes)
      then show ?thesis
        using False len
        by (auto simp: index_remove_def Let_def filter_empty_conv not_less not_le)
    qed
  qed
  then show ?thesis by (simp add: after_command_def)
qed

text \<open>\<^verbatim>\<open>index remove 1\<close> on the example store.\<close>

theorem index_remove_raises_NameError_witness:
  "do_index example_shell ''remove 1'' = Inl NameError \<and>
   after_command example_shell (do_index example_shell ''remove 1'') = Crashed NameError"
proof -
  have parts: "split_ws (strip ''remove 1'') = [''remove'', ''1'']" by code_simp
  have arg: "strip ''remove 1'' \<noteq> []" by code_simp
  have cmd: "lower ''remove'' = ''remove''" by code_simp
  have ints: "int_all [''1''] = Some [1]" by code_simp
  have dispatch: "do_index example_shell ''remove 1'' =
                    index_remove example_shell [leg_day, arms, stretching] [''remove'', ''1'']"
    by (simp add: do_index_def Let_def example_select_groups parts arg cmd)
  have valid: "[''1''] \<noteq> [] \<and>
      (\<exists>indexes. int_all [''1''] = Some indexes \<and>
                 (\<forall>i\<in>set indexes. 1 \<le> i \<and> i \<le> int (length [leg_day, arms, stretching])))"
    by (rule conjI, simp, rule exI [of _ "[1]"], simp add: ints del: int_all.simps)
  have "index_remove example_shell [leg_day, arms, stretching] [''remove'', ''1''] = Inl NameError"
    using index_remove_raises_NameError [of example_shell "[leg_day, arms, stretching]" "''remove''" "[''1'']"]
      valid
    by blast
  with dispatch have crash: "do_index example_shell ''remove 1'' = Inl NameError"
    by simp
  moreover have "after_command example_shell (Inl NameError) = Crashed NameError"
    using index_remove_raises_NameError [of example_shell "[leg_day, arms, stretching]" "''remove''" "[''1'']"]
    by simp
  ultimately show ?thesis by simp
qed

end
